theory Spec2Isabelle
  imports Main "HOL-Library.Sublist"
begin

section \<open>The git middleware of the SSH server (server/ssh.go)\<close>

text \<open>
  The file \<^verbatim>\<open>server/ssh.go\<close> holds the two authentication callbacks
  (\<^verbatim>\<open>PublicKeyHandler\<close>, \<^verbatim>\<open>KeyboardInteractiveHandler\<close>), the git
  \<^verbatim>\<open>Middleware\<close> and \<^verbatim>\<open>sshFatal\<close>. Everything they do is a call to a
  collaborator: the backend, the sanitizer, the confinement check, the pack operations,
  the session. The embedding therefore returns, for one session, the list of those calls
  in the order the code makes them (an event trace); what each collaborator answers is a
  parameter. Within one session every collaborator is called at most once, so a fixed
  answer per call covers every run.
\<close>

subsection \<open>Errors\<close>

text \<open>
  Go errors. The three sentinels \<^verbatim>\<open>ErrNotAuthed\<close>, \<^verbatim>\<open>ErrInvalidRepo\<close> and
  \<^verbatim>\<open>ErrSystemMalfunction\<close> are named by ssh.go and declared elsewhere; any other
  error is \<open>ErrOther\<close> with its message, and \<open>ErrWrap msg e\<close> is an error
  with message \<open>msg\<close> that wraps \<open>e\<close> (what \<^verbatim>\<open>fmt.Errorf("...%w", e)\<close> builds).
\<close>

datatype gerror =
    ErrNotAuthed
  | ErrInvalidRepo
  | ErrSystemMalfunction
  | ErrOther string
  | ErrWrap string gerror

text \<open>\<^verbatim>\<open>errors.Is(err, target)\<close>: \<open>err\<close> or an error it wraps is \<open>target\<close>.\<close>

fun errors_Is :: "gerror \<Rightarrow> gerror \<Rightarrow> bool" where
  "errors_Is (ErrWrap m e) target = (ErrWrap m e = target \<or> errors_Is e target)"
| "errors_Is e target = (e = target)"

subsection \<open>Access levels and command names\<close>

text \<open>
  Modelled from the spec: the type \<^verbatim>\<open>backend.AccessLevel\<close> and its constants are
  declared in the backend package, which is not among the sources. The spec gives the
  ordered enum {NoAccess, ReadOnly, ReadWrite, Admin}; the code compares levels with
  \<^verbatim>\<open><\<close> and \<^verbatim>\<open>>=\<close>, so they are integers here, in that order.
\<close>

type_synonym AccessLevel = int

definition NoAccess :: AccessLevel where
  "NoAccess = 0"

definition ReadOnlyAccess :: AccessLevel where
  "ReadOnlyAccess = 1"

definition ReadWriteAccess :: AccessLevel where
  "ReadWriteAccess = 2"

definition AdminAccess :: AccessLevel where
  "AdminAccess = 3"

text \<open>
  Modelled from the spec: the constants \<^verbatim>\<open>receivePackBin\<close>, \<^verbatim>\<open>uploadPackBin\<close>
  and \<^verbatim>\<open>uploadArchiveBin\<close> are declared outside ssh.go. The spec names the command
  lines \<^verbatim>\<open>["git-receive-pack","a/b.git"]\<close> and \<^verbatim>\<open>["git-upload-pack","repo.git"]\<close>
  and the operation \<^verbatim>\<open>upload-archive\<close>.
\<close>

definition receivePackBin :: string where
  "receivePackBin = ''git-receive-pack''"

definition uploadPackBin :: string where
  "uploadPackBin = ''git-upload-pack''"

definition uploadArchiveBin :: string where
  "uploadArchiveBin = ''git-upload-archive''"

subsection \<open>Session, collaborators, events\<close>

text \<open>What the code reads of an \<^verbatim>\<open>ssh.Session\<close>: \<^verbatim>\<open>s.Command()\<close> and
  \<^verbatim>\<open>s.PublicKey()\<close> (\<open>None\<close> is the nil key).\<close>

record session =
  Command :: "string list"
  PublicKey :: "string option"

text \<open>
  The collaborators of ssh.go, none of them in the file: the configuration's
  \<^verbatim>\<open>DataPath\<close>, the four backend methods, \<^verbatim>\<open>utils.SanitizeRepo\<close>,
  \<^verbatim>\<open>filepath.Join\<close>, \<^verbatim>\<open>ensureWithin\<close> and the three pack operations. A call
  that returns an error value returns \<open>Some err\<close>, and \<open>None\<close> for nil; the
  repository handle that \<^verbatim>\<open>Repository\<close> and \<^verbatim>\<open>CreateRepository\<close> also return is
  discarded by the code.
\<close>

record env =
  DataPath :: string
  Backend_AccessLevel :: "string \<Rightarrow> string option \<Rightarrow> AccessLevel"
  Backend_AllowKeyless :: bool
  Backend_Repository :: "string \<Rightarrow> gerror option"
  Backend_CreateRepository :: "string \<Rightarrow> bool \<Rightarrow> gerror option"
  SanitizeRepo :: "string \<Rightarrow> string"
  filepath_Join :: "string \<Rightarrow> string \<Rightarrow> string"
  ensureWithin :: "string \<Rightarrow> string \<Rightarrow> gerror option"
  receivePack :: "session \<Rightarrow> string \<Rightarrow> gerror option"
  uploadPack :: "session \<Rightarrow> string \<Rightarrow> gerror option"
  uploadArchive :: "session \<Rightarrow> string \<Rightarrow> gerror option"

text \<open>
  The calls the code makes, with their arguments. \<open>WritePktline v\<close> writes the error
  \<open>v\<close> to the client's output stream, \<open>Exit n\<close> ends the session with status
  \<open>n\<close>, \<open>LogErrorf v\<close> is the server-side log line, \<open>Next\<close> is the call
  \<^verbatim>\<open>sh(s)\<close> of the next handler of the chain.
\<close>

datatype event =
    CallAllowKeyless
  | CallSanitizeRepo string
  | CallAccessLevel string "string option"
  | CallEnsureWithin string string
  | CallRepository string
  | CallCreateRepository string bool
  | LogErrorf gerror
  | CallReceivePack string
  | CallUploadPack string
  | CallUploadArchive string
  | WritePktline gerror
  | Exit int
  | Next

subsection \<open>The authentication callbacks\<close>

text \<open>
  \<^verbatim>\<open>return s.cfg.Backend.AccessLevel("", pk) >= backend.ReadOnlyAccess\<close>
\<close>

definition PublicKeyHandler :: "env \<Rightarrow> string option \<Rightarrow> bool \<times> event list" where
  "PublicKeyHandler cfg pk =
     (ReadOnlyAccess \<le> Backend_AccessLevel cfg '''' pk, [CallAccessLevel '''' pk])"

text \<open>
  \<^verbatim>\<open>return s.cfg.Backend.AllowKeyless() && s.PublicKeyHandler(ctx, nil)\<close>:
  the right operand runs only when the left one is true.
\<close>

definition KeyboardInteractiveHandler :: "env \<Rightarrow> bool \<times> event list" where
  "KeyboardInteractiveHandler cfg =
     (if Backend_AllowKeyless cfg
      then (fst (PublicKeyHandler cfg None), CallAllowKeyless # snd (PublicKeyHandler cfg None))
      else (False, [CallAllowKeyless]))"

subsection \<open>The middleware\<close>

text \<open>\<^verbatim>\<open>sshFatal\<close>: \<^verbatim>\<open>writePktline(s, v...)\<close>, then \<^verbatim>\<open>s.Exit(1)\<close>.\<close>

definition sshFatal :: "gerror \<Rightarrow> event list" where
  "sshFatal v = [WritePktline v, Exit 1]"

text \<open>
  Lines 140 to 142, reached when the repository was found and when it was just created:
  \<^verbatim>\<open>if err := receivePack(s, s, s.Stderr(), repoDir); err != nil {
       sshFatal(s, ErrSystemMalfunction) }\<close>
\<close>

definition invoke_receivePack :: "env \<Rightarrow> session \<Rightarrow> string \<Rightarrow> event list" where
  "invoke_receivePack cfg s repoDir =
     CallReceivePack repoDir #
       (case receivePack cfg s repoDir of
          Some err \<Rightarrow> sshFatal ErrSystemMalfunction
        | None \<Rightarrow> [])"

text \<open>
  Lines 149 to 158: the pack operation is \<^verbatim>\<open>uploadPack\<close>, or \<^verbatim>\<open>uploadArchive\<close>
  when the command is \<^verbatim>\<open>uploadArchiveBin\<close>; then the two-way error handling.
\<close>

definition invoke_gitPack :: "env \<Rightarrow> session \<Rightarrow> string \<Rightarrow> string \<Rightarrow> event list" where
  "invoke_gitPack cfg s gc repoDir =
     (let call = (if gc = uploadArchiveBin then CallUploadArchive repoDir
                  else CallUploadPack repoDir);
          err = (if gc = uploadArchiveBin then uploadArchive cfg s repoDir
                 else uploadPack cfg s repoDir)
      in call #
        (case err of
           None \<Rightarrow> []
         | Some e \<Rightarrow>
             if errors_Is e ErrInvalidRepo then sshFatal ErrInvalidRepo
             else sshFatal ErrSystemMalfunction))"

text \<open>
  The handler that \<^verbatim>\<open>Middleware\<close> returns, for one session: the inner closure
  (lines 109 to 161; every \<^verbatim>\<open>return\<close> in it leaves the closure only), then
  \<^verbatim>\<open>sh(s)\<close>, which runs on every path.
\<close>

definition Middleware :: "env \<Rightarrow> session \<Rightarrow> event list" where
  "Middleware cfg s =
     (let cmd = Command s in
        (if 2 \<le> length cmd \<and> prefix ''git'' (cmd ! 0) then
           (let gc = cmd ! 0;
                name = SanitizeRepo cfg (cmd ! 1);
                pk = PublicKey s;
                access = Backend_AccessLevel cfg name pk;
                repo = name @ ''.git'';
                reposDir = filepath_Join cfg (DataPath cfg) ''repos''
            in [CallSanitizeRepo (cmd ! 1), CallAccessLevel name pk,
                CallEnsureWithin reposDir repo] @
               (case ensureWithin cfg reposDir repo of
                  Some err \<Rightarrow> sshFatal err
                | None \<Rightarrow>
                    (let repoDir = filepath_Join cfg reposDir repo in
                       if gc = receivePackBin then
                         (if access < ReadWriteAccess then sshFatal ErrNotAuthed
                          else CallRepository name #
                            (case Backend_Repository cfg name of
                               None \<Rightarrow> invoke_receivePack cfg s repoDir
                             | Some lookup_err \<Rightarrow>
                                 CallCreateRepository name False #
                                   (case Backend_CreateRepository cfg name False of
                                      Some err \<Rightarrow> LogErrorf err # sshFatal err
                                    | None \<Rightarrow> invoke_receivePack cfg s repoDir)))
                       else if gc = uploadPackBin \<or> gc = uploadArchiveBin then
                         (if access < ReadOnlyAccess then sshFatal ErrNotAuthed
                          else invoke_gitPack cfg s gc repoDir)
                       else [])))
         else [])
        @ [Next])"

subsection \<open>Names for the middleware's local values\<close>

text \<open>
  The local variables of the closure, as functions of the configuration and the session,
  so that statements can name them: \<^verbatim>\<open>name\<close>, \<^verbatim>\<open>access\<close>, \<^verbatim>\<open>repo\<close>,
  \<^verbatim>\<open>reposDir\<close>, \<^verbatim>\<open>repoDir\<close>.
\<close>

definition repo_name :: "env \<Rightarrow> session \<Rightarrow> string" where
  "repo_name cfg s = SanitizeRepo cfg (Command s ! 1)"

definition access_of :: "env \<Rightarrow> session \<Rightarrow> AccessLevel" where
  "access_of cfg s = Backend_AccessLevel cfg (repo_name cfg s) (PublicKey s)"

definition repo_file :: "env \<Rightarrow> session \<Rightarrow> string" where
  "repo_file cfg s = repo_name cfg s @ ''.git''"

definition reposDir_of :: "env \<Rightarrow> string" where
  "reposDir_of cfg = filepath_Join cfg (DataPath cfg) ''repos''"

definition repoDir_of :: "env \<Rightarrow> session \<Rightarrow> string" where
  "repoDir_of cfg s = filepath_Join cfg (reposDir_of cfg) (repo_file cfg s)"

text \<open>The answer of the confinement check of line 121.\<close>

definition confinement :: "env \<Rightarrow> session \<Rightarrow> gerror option" where
  "confinement cfg s = ensureWithin cfg (reposDir_of cfg) (repo_file cfg s)"

text \<open>The three calls of lines 114 to 121, which every git command makes, in order.\<close>

definition preamble :: "env \<Rightarrow> session \<Rightarrow> event list" where
  "preamble cfg s =
     [CallSanitizeRepo (Command s ! 1),
      CallAccessLevel (repo_name cfg s) (PublicKey s),
      CallEnsureWithin (reposDir_of cfg) (repo_file cfg s)]"

subsection \<open>Observations on a trace\<close>

text \<open>The arguments of the backend's AccessLevel lookups, in order.\<close>

fun access_queries :: "event list \<Rightarrow> (string \<times> string option) list" where
  "access_queries [] = []"
| "access_queries (CallAccessLevel n k # tr) = (n, k) # access_queries tr"
| "access_queries (e # tr) = access_queries tr"

text \<open>
  The stage an event belongs to: parsing (0), the AccessLevel lookup (1), the
  confinement check (2), the repository lookup (3), creation (4, its log line 5), the
  pack operation (6), the fatal error line (7) and exit (8), the next handler (9).
  \<open>CallAllowKeyless\<close> belongs to the authentication callbacks only.
\<close>

fun stage :: "event \<Rightarrow> nat" where
  "stage CallAllowKeyless = 0"
| "stage (CallSanitizeRepo r) = 0"
| "stage (CallAccessLevel n k) = 1"
| "stage (CallEnsureWithin d r) = 2"
| "stage (CallRepository n) = 3"
| "stage (CallCreateRepository n b) = 4"
| "stage (LogErrorf v) = 5"
| "stage (CallReceivePack d) = 6"
| "stage (CallUploadPack d) = 6"
| "stage (CallUploadArchive d) = 6"
| "stage (WritePktline v) = 7"
| "stage (Exit n) = 8"
| "stage Next = 9"

text \<open>
  The order of stages as the specification words it (parse, confine, authorize): no
  AccessLevel lookup stands in the trace before the first confinement check.
\<close>

fun confined_before_lookup :: "event list \<Rightarrow> bool" where
  "confined_before_lookup [] = True"
| "confined_before_lookup (CallEnsureWithin d r # tr) = True"
| "confined_before_lookup (CallAccessLevel n k # tr) = False"
| "confined_before_lookup (e # tr) = confined_before_lookup tr"

subsection \<open>A concrete configuration\<close>

text \<open>
  Stand-ins for the collaborators, used at concrete inputs only. The key
  \<open>alice\<close> has ReadWrite on every name; any other key, and no key, has ReadOnly
  except on the repository \<open>private\<close>, where it has none. The repositories
  \<open>public\<close> and \<open>private\<close> exist; creating \<open>locked\<close> fails. A
  repository path that starts with \<open>..\<close> fails the confinement check.
\<close>

definition demo_SanitizeRepo :: "string \<Rightarrow> string" where
  "demo_SanitizeRepo r =
     (if take 4 (rev r) = rev ''.git'' then rev (drop 4 (rev r)) else r)"

definition demo_AccessLevel :: "string \<Rightarrow> string option \<Rightarrow> AccessLevel" where
  "demo_AccessLevel name pk =
     (if pk = Some ''alice'' then ReadWriteAccess
      else if name = ''private'' then NoAccess
      else ReadOnlyAccess)"

definition demo_Repository :: "string \<Rightarrow> gerror option" where
  "demo_Repository name =
     (if name = ''public'' \<or> name = ''private'' then None
      else Some (ErrOther ''repository not found''))"

definition demo_CreateRepository :: "string \<Rightarrow> bool \<Rightarrow> gerror option" where
  "demo_CreateRepository name bare =
     (if name = ''locked''
      then Some (ErrOther ''mkdir /data/repos/locked.git: permission denied'')
      else None)"

definition demo_ensureWithin :: "string \<Rightarrow> string \<Rightarrow> gerror option" where
  "demo_ensureWithin root repo =
     (if take 2 repo = ''..'' then Some (ErrOther ''path is outside /data/repos'')
      else None)"

definition demo_uploadPack :: "session \<Rightarrow> string \<Rightarrow> gerror option" where
  "demo_uploadPack s dir =
     (if dir = ''/data/repos/public.git'' then None
      else Some (ErrWrap ''open repository: invalid repo'' ErrInvalidRepo))"

definition demo_env :: env where
  "demo_env =
     \<lparr>DataPath = ''/data'',
      Backend_AccessLevel = demo_AccessLevel,
      Backend_AllowKeyless = True,
      Backend_Repository = demo_Repository,
      Backend_CreateRepository = demo_CreateRepository,
      SanitizeRepo = demo_SanitizeRepo,
      filepath_Join = (\<lambda>a b. a @ ''/'' @ b),
      ensureWithin = demo_ensureWithin,
      receivePack = (\<lambda>s dir. None),
      uploadPack = demo_uploadPack,
      uploadArchive = (\<lambda>s dir. Some (ErrOther ''exit status 128''))\<rparr>"

definition demo_session :: "string \<Rightarrow> string \<Rightarrow> string option \<Rightarrow> session" where
  "demo_session gc arg pk = \<lparr>Command = [gc, arg], PublicKey = pk\<rparr>"

section \<open>Traces of the middleware, path by path\<close>

lemmas demo_defs =
  demo_env_def demo_session_def demo_SanitizeRepo_def demo_AccessLevel_def
  demo_Repository_def demo_CreateRepository_def demo_ensureWithin_def demo_uploadPack_def

lemmas local_defs =
  repo_name_def access_of_def repo_file_def reposDir_of_def repoDir_of_def
  confinement_def preamble_def

lemmas const_defs =
  receivePackBin_def uploadPackBin_def uploadArchiveBin_def
  NoAccess_def ReadOnlyAccess_def ReadWriteAccess_def AdminAccess_def

lemmas mw_defs = Middleware_def sshFatal_def invoke_receivePack_def invoke_gitPack_def Let_def


lemma Middleware_escape:
  "2 \<le> length (Command s) \<Longrightarrow> prefix ''git'' (Command s ! 0) \<Longrightarrow>
   confinement cfg s = Some err \<Longrightarrow>
   Middleware cfg s = preamble cfg s @ [WritePktline err, Exit 1, Next]"
  by (simp add: Middleware_def sshFatal_def Let_def local_defs)

lemma prefix_git_bins:
  "prefix ''git'' receivePackBin" "prefix ''git'' uploadPackBin" "prefix ''git'' uploadArchiveBin"
  by (simp_all add: const_defs)

lemma bins_distinct:
  "receivePackBin \<noteq> uploadPackBin" "receivePackBin \<noteq> uploadArchiveBin"
  "uploadPackBin \<noteq> uploadArchiveBin" "uploadPackBin \<noteq> receivePackBin"
  "uploadArchiveBin \<noteq> receivePackBin" "uploadArchiveBin \<noteq> uploadPackBin"
  by (simp_all add: const_defs)

lemma Middleware_other:
  "2 \<le> length (Command s) \<Longrightarrow> prefix ''git'' (Command s ! 0) \<Longrightarrow>
   confinement cfg s = None \<Longrightarrow>
   Command s ! 0 \<noteq> receivePackBin \<Longrightarrow> Command s ! 0 \<noteq> uploadPackBin \<Longrightarrow>
   Command s ! 0 \<noteq> uploadArchiveBin \<Longrightarrow>
   Middleware cfg s = preamble cfg s @ [Next]"
  by (simp add: Middleware_def Let_def local_defs)

lemma Middleware_push_denied:
  "2 \<le> length (Command s) \<Longrightarrow> Command s ! 0 = receivePackBin \<Longrightarrow>
   confinement cfg s = None \<Longrightarrow> access_of cfg s < ReadWriteAccess \<Longrightarrow>
   Middleware cfg s = preamble cfg s @ [WritePktline ErrNotAuthed, Exit 1, Next]"
  by (simp add: Middleware_def sshFatal_def Let_def local_defs prefix_git_bins)

lemma Middleware_push_found:
  "2 \<le> length (Command s) \<Longrightarrow> Command s ! 0 = receivePackBin \<Longrightarrow>
   confinement cfg s = None \<Longrightarrow> ReadWriteAccess \<le> access_of cfg s \<Longrightarrow>
   Backend_Repository cfg (repo_name cfg s) = None \<Longrightarrow>
   Middleware cfg s =
     preamble cfg s @ [CallRepository (repo_name cfg s)] @
     invoke_receivePack cfg s (repoDir_of cfg s) @ [Next]"
  by (simp add: Middleware_def Let_def local_defs prefix_git_bins)

lemma Middleware_push_create:
  "2 \<le> length (Command s) \<Longrightarrow> Command s ! 0 = receivePackBin \<Longrightarrow>
   confinement cfg s = None \<Longrightarrow> ReadWriteAccess \<le> access_of cfg s \<Longrightarrow>
   Backend_Repository cfg (repo_name cfg s) = Some e \<Longrightarrow>
   Middleware cfg s =
     preamble cfg s @
     [CallRepository (repo_name cfg s), CallCreateRepository (repo_name cfg s) False] @
     (case Backend_CreateRepository cfg (repo_name cfg s) False of
        Some err \<Rightarrow> [LogErrorf err, WritePktline err, Exit 1]
      | None \<Rightarrow> invoke_receivePack cfg s (repoDir_of cfg s)) @ [Next]"
  by (simp add: Middleware_def sshFatal_def Let_def local_defs prefix_git_bins split: option.splits)

lemma Middleware_upload_denied:
  "2 \<le> length (Command s) \<Longrightarrow>
   Command s ! 0 = uploadPackBin \<or> Command s ! 0 = uploadArchiveBin \<Longrightarrow>
   confinement cfg s = None \<Longrightarrow> access_of cfg s < ReadOnlyAccess \<Longrightarrow>
   Middleware cfg s = preamble cfg s @ [WritePktline ErrNotAuthed, Exit 1, Next]"
  by (auto simp add: Middleware_def sshFatal_def Let_def local_defs prefix_git_bins bins_distinct)

lemma Middleware_upload:
  "2 \<le> length (Command s) \<Longrightarrow>
   Command s ! 0 = uploadPackBin \<or> Command s ! 0 = uploadArchiveBin \<Longrightarrow>
   confinement cfg s = None \<Longrightarrow> ReadOnlyAccess \<le> access_of cfg s \<Longrightarrow>
   Middleware cfg s = preamble cfg s @ invoke_gitPack cfg s (Command s ! 0) (repoDir_of cfg s) @ [Next]"
  by (auto simp add: Middleware_def Let_def local_defs prefix_git_bins bins_distinct)

lemma Middleware_git_cases [consumes 2, case_names escape push_denied push_found push_create upload_denied upload other]:
  assumes "2 \<le> length (Command s)" and "prefix ''git'' (Command s ! 0)"
  obtains
    err where "confinement cfg s = Some err"
      "Middleware cfg s = preamble cfg s @ [WritePktline err, Exit 1, Next]"
  | "confinement cfg s = None" "Command s ! 0 = receivePackBin"
      "access_of cfg s < ReadWriteAccess"
      "Middleware cfg s = preamble cfg s @ [WritePktline ErrNotAuthed, Exit 1, Next]"
  | "confinement cfg s = None" "Command s ! 0 = receivePackBin"
      "ReadWriteAccess \<le> access_of cfg s"
      "Backend_Repository cfg (repo_name cfg s) = None"
      "Middleware cfg s =
         preamble cfg s @ [CallRepository (repo_name cfg s)] @
         invoke_receivePack cfg s (repoDir_of cfg s) @ [Next]"
  | e where "confinement cfg s = None" "Command s ! 0 = receivePackBin"
      "ReadWriteAccess \<le> access_of cfg s"
      "Backend_Repository cfg (repo_name cfg s) = Some e"
      "Middleware cfg s =
         preamble cfg s @
         [CallRepository (repo_name cfg s), CallCreateRepository (repo_name cfg s) False] @
         (case Backend_CreateRepository cfg (repo_name cfg s) False of
            Some err \<Rightarrow> [LogErrorf err, WritePktline err, Exit 1]
          | None \<Rightarrow> invoke_receivePack cfg s (repoDir_of cfg s)) @ [Next]"
  | "confinement cfg s = None"
      "Command s ! 0 = uploadPackBin \<or> Command s ! 0 = uploadArchiveBin"
      "access_of cfg s < ReadOnlyAccess"
      "Middleware cfg s = preamble cfg s @ [WritePktline ErrNotAuthed, Exit 1, Next]"
  | "confinement cfg s = None"
      "Command s ! 0 = uploadPackBin \<or> Command s ! 0 = uploadArchiveBin"
      "ReadOnlyAccess \<le> access_of cfg s"
      "Middleware cfg s =
         preamble cfg s @ invoke_gitPack cfg s (Command s ! 0) (repoDir_of cfg s) @ [Next]"
  | "confinement cfg s = None" "Command s ! 0 \<noteq> receivePackBin"
      "Command s ! 0 \<noteq> uploadPackBin" "Command s ! 0 \<noteq> uploadArchiveBin"
      "Middleware cfg s = preamble cfg s @ [Next]"
proof (cases "confinement cfg s")
  case (Some err)
  then show ?thesis using assms Middleware_escape that(1) by blast
next
  case None
  show ?thesis
  proof (cases "Command s ! 0 = receivePackBin")
    case True
    show ?thesis
    proof (cases "access_of cfg s < ReadWriteAccess")
      case True
      with None \<open>Command s ! 0 = receivePackBin\<close> assms(1) show ?thesis
        using Middleware_push_denied that(2) by blast
    next
      case False
      then have rw: "ReadWriteAccess \<le> access_of cfg s" by simp
      show ?thesis
      proof (cases "Backend_Repository cfg (repo_name cfg s)")
        case none: None
        with None True rw assms(1) show ?thesis
          using Middleware_push_found that(3) by blast
      next
        case (Some e)
        with None True rw assms(1) show ?thesis
          using Middleware_push_create that(4) by blast
      qed
    qed
  next
    case notpush: False
    show ?thesis
    proof (cases "Command s ! 0 = uploadPackBin \<or> Command s ! 0 = uploadArchiveBin")
      case True
      show ?thesis
      proof (cases "access_of cfg s < ReadOnlyAccess")
        case lt: True
        with None True assms(1) show ?thesis
          using Middleware_upload_denied that(5) by blast
      next
        case False
        then have "ReadOnlyAccess \<le> access_of cfg s" by simp
        with None True assms(1) show ?thesis
          using Middleware_upload that(6) by blast
      qed
    next
      case False
      with None notpush assms show ?thesis
        using Middleware_other that(7) by blast
    qed
  qed
qed

lemma stage_preamble: "map stage (preamble cfg s) = [0, 1, 2]"
  by (simp add: preamble_def)

lemma stage_invoke_receivePack:
  "map stage (invoke_receivePack cfg s d) = [6] \<or>
   map stage (invoke_receivePack cfg s d) = [6, 7, 8]"
  by (simp add: invoke_receivePack_def sshFatal_def split: option.splits)

lemma stage_invoke_gitPack:
  "map stage (invoke_gitPack cfg s gc d) = [6] \<or>
   map stage (invoke_gitPack cfg s gc d) = [6, 7, 8]"
  by (simp add: invoke_gitPack_def sshFatal_def Let_def split: option.splits)

lemma stages_git:
  assumes "2 \<le> length (Command s)" and "prefix ''git'' (Command s ! 0)"
  shows "map stage (Middleware cfg s) \<in>
    {[0, 1, 2, 7, 8, 9], [0, 1, 2, 3, 6, 9], [0, 1, 2, 3, 6, 7, 8, 9],
     [0, 1, 2, 3, 4, 5, 7, 8, 9], [0, 1, 2, 3, 4, 6, 9], [0, 1, 2, 3, 4, 6, 7, 8, 9],
     [0, 1, 2, 6, 9], [0, 1, 2, 6, 7, 8, 9], [0, 1, 2, 9]}"
  using assms
proof (cases rule: Middleware_git_cases [of s cfg])
  case (push_found)
  then show ?thesis
    using stage_invoke_receivePack [of cfg s "repoDir_of cfg s"]
    by (auto simp: stage_preamble)
next
  case (push_create e)
  then show ?thesis
    using stage_invoke_receivePack [of cfg s "repoDir_of cfg s"]
    by (auto simp: stage_preamble split: option.splits)
next
  case upload
  then show ?thesis
    using stage_invoke_gitPack [of cfg s "Command s ! 0" "repoDir_of cfg s"]
    by (auto simp: stage_preamble)
qed (simp_all add: stage_preamble)

lemma access_queries_append:
  "access_queries (xs @ ys) = access_queries xs @ access_queries ys"
  by (induction xs rule: access_queries.induct) simp_all

lemma access_queries_invoke_receivePack: "access_queries (invoke_receivePack cfg s d) = []"
  by (simp add: invoke_receivePack_def sshFatal_def split: option.splits)

lemma access_queries_invoke_gitPack: "access_queries (invoke_gitPack cfg s gc d) = []"
  by (simp add: invoke_gitPack_def sshFatal_def Let_def split: option.splits)

lemma access_queries_preamble:
  "access_queries (preamble cfg s) = [(repo_name cfg s, PublicKey s)]"
  by (simp add: preamble_def)

lemma access_queries_git:
  assumes "2 \<le> length (Command s)" and "prefix ''git'' (Command s ! 0)"
  shows "access_queries (Middleware cfg s) = [(repo_name cfg s, PublicKey s)]"
  using assms
  by (cases rule: Middleware_git_cases [of s cfg])
     (simp_all add: access_queries_append access_queries_preamble
        access_queries_invoke_receivePack access_queries_invoke_gitPack split: option.splits)



lemma hd_invoke_gitPack:
  "CallUploadPack d \<in> set (invoke_gitPack cfg s gc d) \<or>
   CallUploadArchive d \<in> set (invoke_gitPack cfg s gc d)"
  by (simp add: invoke_gitPack_def Let_def)





section \<open>The claims\<close>

text \<open>
  C1 (the code departs from the claim): the claim is that a session that fails in
  repository creation, or in the confinement check, leaves only a generic message on the
  client's output stream. The lemmas \<open>Middleware_push_create\<close> and
  \<open>Middleware_escape\<close> above show what the code writes instead: the very error
  value that \<^verbatim>\<open>CreateRepository\<close> or \<^verbatim>\<open>ensureWithin\<close> returned (lines 136 and
  122), where the two sibling paths of lines 141 and 157 write
  \<^verbatim>\<open>ErrSystemMalfunction\<close>. Here the code is run on a push by a key with ReadWrite
  access to a repository that does not exist and cannot be created: the client receives
  the backend's error text, path included, the same value that goes to the log.
\<close>

theorem creation_error_reaches_client:
  "Middleware demo_env (demo_session ''git-receive-pack'' ''locked.git'' (Some ''alice'')) =
     [CallSanitizeRepo ''locked.git'', CallAccessLevel ''locked'' (Some ''alice''),
      CallEnsureWithin ''/data/repos'' ''locked.git'', CallRepository ''locked'',
      CallCreateRepository ''locked'' False,
      LogErrorf (ErrOther ''mkdir /data/repos/locked.git: permission denied''),
      WritePktline (ErrOther ''mkdir /data/repos/locked.git: permission denied''),
      Exit 1, Next]"
  by (simp add: mw_defs demo_defs const_defs)

text \<open>
  C2 (as amended): for every session classified as a git command the calls are made in
  strictly increasing stage order: parse (sanitize), the backend's AccessLevel lookup,
  the confinement check, then the repository lookup, creation, the pack operation, the
  fatal error line, exit, and the next handler. The first three calls are always the
  sanitizer, the AccessLevel lookup and the confinement check, in this order: the lookup
  is made before the confinement check, and also when that check then fails, in which
  case nothing else runs but the fatal error.
\<close>

theorem stage_order:
  assumes "2 \<le> length (Command s)" and "prefix ''git'' (Command s ! 0)"
  shows "sorted_wrt (<) (map stage (Middleware cfg s)) \<and>
         take 3 (Middleware cfg s) = preamble cfg s \<and>
         (\<forall>err. confinement cfg s = Some err \<longrightarrow>
            Middleware cfg s = preamble cfg s @ [WritePktline err, Exit 1, Next])"
proof (intro conjI allI impI)
  show "sorted_wrt (<) (map stage (Middleware cfg s))"
    using stages_git [OF assms, of cfg] by auto
  show "take 3 (Middleware cfg s) = preamble cfg s"
    using assms by (simp add: Middleware_def Let_def local_defs)
  show "Middleware cfg s = preamble cfg s @ [WritePktline err, Exit 1, Next]"
    if "confinement cfg s = Some err" for err
    using assms that by (rule Middleware_escape)
qed

text \<open>The order on a fetch whose path fails the confinement check.\<close>

theorem stage_order_witness:
  "sorted_wrt (<)
     (map stage (Middleware demo_env (demo_session ''git-upload-pack'' ''../../etc'' (Some ''bob'')))) \<and>
   take 3 (Middleware demo_env (demo_session ''git-upload-pack'' ''../../etc'' (Some ''bob''))) =
     [CallSanitizeRepo ''../../etc'', CallAccessLevel ''../../etc'' (Some ''bob''),
      CallEnsureWithin ''/data/repos'' ''../../etc.git''] \<and>
   Middleware demo_env (demo_session ''git-upload-pack'' ''../../etc'' (Some ''bob'')) =
     [CallSanitizeRepo ''../../etc'', CallAccessLevel ''../../etc'' (Some ''bob''),
      CallEnsureWithin ''/data/repos'' ''../../etc.git'',
      WritePktline (ErrOther ''path is outside /data/repos''), Exit 1, Next]"
  using stage_order [where cfg = demo_env
      and s = "demo_session ''git-upload-pack'' ''../../etc'' (Some ''bob'')"]
  by (simp add: demo_defs local_defs)

text \<open>
  C2 as stated (no AccessLevel lookup before the confinement check has succeeded) fails:
  on this session the lookup is in the trace before the confinement check, which then
  does not succeed.
\<close>

theorem lookup_precedes_confinement:
  "\<not> confined_before_lookup
       (Middleware demo_env (demo_session ''git-upload-pack'' ''../../etc'' (Some ''bob''))) \<and>
   CallAccessLevel ''../../etc'' (Some ''bob'') \<in>
     set (Middleware demo_env (demo_session ''git-upload-pack'' ''../../etc'' (Some ''bob''))) \<and>
   confinement demo_env (demo_session ''git-upload-pack'' ''../../etc'' (Some ''bob'')) \<noteq> None"
  by (simp add: mw_defs demo_defs const_defs local_defs)

text \<open>
  C3 (as amended): connection acceptance and operation authorization call the same
  backend function with the same key but not with the same repository argument or
  threshold. The public-key callback asks for the pair (empty name, key) and accepts at
  ReadOnly or above. A git command on \<open>r\<close> asks once, for (SanitizeRepo r, key); with
  the confinement check passed, receive-pack goes on to the repository lookup exactly
  when that level is at least ReadWrite, and upload-pack or upload-archive invoke their
  pack operation exactly when it is at least ReadOnly.
\<close>

theorem access_level_uses:
  "access_queries (snd (PublicKeyHandler cfg k)) = [('''', k)] \<and>
   fst (PublicKeyHandler cfg k) = (ReadOnlyAccess \<le> Backend_AccessLevel cfg '''' k) \<and>
   (2 \<le> length (Command s) \<and> prefix ''git'' (Command s ! 0) \<longrightarrow>
      access_queries (Middleware cfg s) = [(SanitizeRepo cfg (Command s ! 1), PublicKey s)]) \<and>
   (2 \<le> length (Command s) \<and> Command s ! 0 = receivePackBin \<and> confinement cfg s = None \<longrightarrow>
      (CallRepository (repo_name cfg s) \<in> set (Middleware cfg s)) =
      (ReadWriteAccess \<le> Backend_AccessLevel cfg (SanitizeRepo cfg (Command s ! 1)) (PublicKey s))) \<and>
   (2 \<le> length (Command s) \<and> (Command s ! 0 = uploadPackBin \<or> Command s ! 0 = uploadArchiveBin) \<and>
    confinement cfg s = None \<longrightarrow>
      (CallUploadPack (repoDir_of cfg s) \<in> set (Middleware cfg s) \<or>
       CallUploadArchive (repoDir_of cfg s) \<in> set (Middleware cfg s)) =
      (ReadOnlyAccess \<le> Backend_AccessLevel cfg (SanitizeRepo cfg (Command s ! 1)) (PublicKey s)))"
proof (intro conjI impI)
  show "access_queries (snd (PublicKeyHandler cfg k)) = [('''', k)]"
    by (simp add: PublicKeyHandler_def)
  show "fst (PublicKeyHandler cfg k) = (ReadOnlyAccess \<le> Backend_AccessLevel cfg '''' k)"
    by (simp add: PublicKeyHandler_def)
  show "access_queries (Middleware cfg s) = [(SanitizeRepo cfg (Command s ! 1), PublicKey s)]"
    if "2 \<le> length (Command s) \<and> prefix ''git'' (Command s ! 0)"
    using that access_queries_git [of s cfg] by (simp add: repo_name_def)
  show "(CallRepository (repo_name cfg s) \<in> set (Middleware cfg s)) =
      (ReadWriteAccess \<le> Backend_AccessLevel cfg (SanitizeRepo cfg (Command s ! 1)) (PublicKey s))"
    if h: "2 \<le> length (Command s) \<and> Command s ! 0 = receivePackBin \<and> confinement cfg s = None"
  proof (cases "access_of cfg s < ReadWriteAccess")
    case True
    with h have "Middleware cfg s = preamble cfg s @ [WritePktline ErrNotAuthed, Exit 1, Next]"
      by (simp add: Middleware_push_denied)
    with True show ?thesis by (simp add: preamble_def access_of_def repo_name_def)
  next
    case False
    then have rw: "ReadWriteAccess \<le> access_of cfg s" by simp
    have "CallRepository (repo_name cfg s) \<in> set (Middleware cfg s)"
    proof (cases "Backend_Repository cfg (repo_name cfg s)")
      case None
      with h rw show ?thesis by (simp add: Middleware_push_found)
    next
      case (Some e)
      with h rw show ?thesis by (simp add: Middleware_push_create)
    qed
    with rw show ?thesis by (simp add: access_of_def repo_name_def)
  qed
  show "(CallUploadPack (repoDir_of cfg s) \<in> set (Middleware cfg s) \<or>
       CallUploadArchive (repoDir_of cfg s) \<in> set (Middleware cfg s)) =
      (ReadOnlyAccess \<le> Backend_AccessLevel cfg (SanitizeRepo cfg (Command s ! 1)) (PublicKey s))"
    if h: "2 \<le> length (Command s) \<and> (Command s ! 0 = uploadPackBin \<or> Command s ! 0 = uploadArchiveBin) \<and>
      confinement cfg s = None"
  proof (cases "access_of cfg s < ReadOnlyAccess")
    case True
    with h have "Middleware cfg s = preamble cfg s @ [WritePktline ErrNotAuthed, Exit 1, Next]"
      by (simp add: Middleware_upload_denied)
    with True show ?thesis by (simp add: preamble_def access_of_def repo_name_def)
  next
    case False
    then have ro: "ReadOnlyAccess \<le> access_of cfg s" by simp
    with h have "Middleware cfg s =
        preamble cfg s @ invoke_gitPack cfg s (Command s ! 0) (repoDir_of cfg s) @ [Next]"
      by (simp add: Middleware_upload)
    then have "CallUploadPack (repoDir_of cfg s) \<in> set (Middleware cfg s) \<or>
       CallUploadArchive (repoDir_of cfg s) \<in> set (Middleware cfg s)"
      using hd_invoke_gitPack [of "repoDir_of cfg s" cfg s "Command s ! 0"] by auto
    with ro show ?thesis by (simp add: access_of_def repo_name_def)
  qed
qed

text \<open>Both uses at concrete sessions of the keys \<open>bob\<close> and \<open>alice\<close>.\<close>

theorem access_level_uses_witness:
  "access_queries (snd (PublicKeyHandler demo_env (Some ''bob''))) = [('''', Some ''bob'')] \<and>
   fst (PublicKeyHandler demo_env (Some ''bob'')) \<and>
   access_queries (Middleware demo_env (demo_session ''git-upload-pack'' ''private.git'' (Some ''bob''))) =
     [(''private'', Some ''bob'')] \<and>
   CallUploadPack ''/data/repos/private.git'' \<notin>
     set (Middleware demo_env (demo_session ''git-upload-pack'' ''private.git'' (Some ''bob''))) \<and>
   CallRepository ''public'' \<in>
     set (Middleware demo_env (demo_session ''git-receive-pack'' ''public.git'' (Some ''alice'')))"
  using access_level_uses [where cfg = demo_env and k = "Some ''bob''"
      and s = "demo_session ''git-upload-pack'' ''private.git'' (Some ''bob'')"]
    access_level_uses [where cfg = demo_env and k = "Some ''bob''"
      and s = "demo_session ''git-receive-pack'' ''public.git'' (Some ''alice'')"]
  by (simp add: demo_defs local_defs const_defs)

text \<open>
  C3 as stated (the same pair for acceptance and for authorization) fails: for the key
  \<open>bob\<close> acceptance asks about the empty name and accepts, the fetch of
  \<open>private\<close> asks about \<open>private\<close> and is denied.
\<close>

theorem connection_and_operation_differ:
  "access_queries (snd (PublicKeyHandler demo_env (Some ''bob''))) \<noteq>
   access_queries (Middleware demo_env (demo_session ''git-upload-pack'' ''private.git'' (Some ''bob''))) \<and>
   fst (PublicKeyHandler demo_env (Some ''bob'')) \<and>
   Middleware demo_env (demo_session ''git-upload-pack'' ''private.git'' (Some ''bob'')) =
     [CallSanitizeRepo ''private.git'', CallAccessLevel ''private'' (Some ''bob''),
      CallEnsureWithin ''/data/repos'' ''private.git'', WritePktline ErrNotAuthed, Exit 1, Next]"
  by (simp add: mw_defs PublicKeyHandler_def demo_defs const_defs)



text \<open>
  C5 (as amended): a receive-pack session whose access level is below ReadWrite gets one
  fatal error line and exit status 1, and the only calls made are the sanitizer, the
  AccessLevel lookup and the confinement check: no repository lookup, no creation, no
  pack operation. The error is \<^verbatim>\<open>ErrNotAuthed\<close> when the confinement check passed,
  and the confinement check's own error when it failed.
\<close>

theorem push_denied:
  assumes "2 \<le> length (Command s)" and "Command s ! 0 = receivePackBin"
    and "access_of cfg s < ReadWriteAccess"
  shows "Middleware cfg s =
           preamble cfg s @
           [WritePktline (case confinement cfg s of None \<Rightarrow> ErrNotAuthed | Some err \<Rightarrow> err),
            Exit 1, Next]"
proof (cases "confinement cfg s")
  case None
  with assms show ?thesis by (simp add: Middleware_push_denied)
next
  case (Some err)
  with assms show ?thesis by (simp add: Middleware_escape prefix_git_bins)
qed

text \<open>The key \<open>bob\<close>, ReadOnly on \<open>public\<close>, pushes to it.\<close>

theorem push_denied_witness:
  "access_of demo_env (demo_session ''git-receive-pack'' ''public.git'' (Some ''bob'')) < ReadWriteAccess \<and>
   Middleware demo_env (demo_session ''git-receive-pack'' ''public.git'' (Some ''bob'')) =
     [CallSanitizeRepo ''public.git'', CallAccessLevel ''public'' (Some ''bob''),
      CallEnsureWithin ''/data/repos'' ''public.git'', WritePktline ErrNotAuthed, Exit 1, Next]"
  using push_denied [where cfg = demo_env
      and s = "demo_session ''git-receive-pack'' ''public.git'' (Some ''bob'')"]
  by (simp add: demo_defs local_defs const_defs)

text \<open>
  C5 as stated (every receive-pack session below ReadWrite receives NotAuthorized) fails
  where the confinement check fails first: no \<^verbatim>\<open>ErrNotAuthed\<close> is written.
\<close>

theorem push_denied_escape:
  "Command (demo_session ''git-receive-pack'' ''../../etc'' (Some ''bob'')) ! 0 = receivePackBin \<and>
   access_of demo_env (demo_session ''git-receive-pack'' ''../../etc'' (Some ''bob'')) < ReadWriteAccess \<and>
   WritePktline ErrNotAuthed \<notin>
     set (Middleware demo_env (demo_session ''git-receive-pack'' ''../../etc'' (Some ''bob'')))"
  by (simp add: mw_defs demo_defs local_defs const_defs)

text \<open>
  C6 (as amended): for an upload-pack or upload-archive session whose confinement check
  passed: below ReadOnly the session ends with the fatal error \<^verbatim>\<open>ErrNotAuthed\<close>;
  otherwise the matching pack operation is called, and a failure of it is written to the
  client as \<^verbatim>\<open>ErrInvalidRepo\<close> when \<^verbatim>\<open>errors.Is\<close> finds that error in it, and
  as \<^verbatim>\<open>ErrSystemMalfunction\<close> otherwise, never as the error itself.
\<close>

theorem upload_outcomes:
  assumes "2 \<le> length (Command s)"
    and "Command s ! 0 = uploadPackBin \<or> Command s ! 0 = uploadArchiveBin"
    and "confinement cfg s = None"
  shows "(access_of cfg s < ReadOnlyAccess \<longrightarrow>
            Middleware cfg s = preamble cfg s @ [WritePktline ErrNotAuthed, Exit 1, Next]) \<and>
         (ReadOnlyAccess \<le> access_of cfg s \<and> Command s ! 0 = uploadPackBin \<longrightarrow>
            Middleware cfg s =
              preamble cfg s @ [CallUploadPack (repoDir_of cfg s)] @
              (case uploadPack cfg s (repoDir_of cfg s) of
                 None \<Rightarrow> []
               | Some e \<Rightarrow>
                   [WritePktline (if errors_Is e ErrInvalidRepo then ErrInvalidRepo
                                  else ErrSystemMalfunction), Exit 1]) @ [Next]) \<and>
         (ReadOnlyAccess \<le> access_of cfg s \<and> Command s ! 0 = uploadArchiveBin \<longrightarrow>
            Middleware cfg s =
              preamble cfg s @ [CallUploadArchive (repoDir_of cfg s)] @
              (case uploadArchive cfg s (repoDir_of cfg s) of
                 None \<Rightarrow> []
               | Some e \<Rightarrow>
                   [WritePktline (if errors_Is e ErrInvalidRepo then ErrInvalidRepo
                                  else ErrSystemMalfunction), Exit 1]) @ [Next])"
proof (intro conjI impI)
  show "Middleware cfg s = preamble cfg s @ [WritePktline ErrNotAuthed, Exit 1, Next]"
    if "access_of cfg s < ReadOnlyAccess"
    using assms that by (rule Middleware_upload_denied)
  show "Middleware cfg s =
      preamble cfg s @ [CallUploadPack (repoDir_of cfg s)] @
      (case uploadPack cfg s (repoDir_of cfg s) of
         None \<Rightarrow> []
       | Some e \<Rightarrow>
           [WritePktline (if errors_Is e ErrInvalidRepo then ErrInvalidRepo
                          else ErrSystemMalfunction), Exit 1]) @ [Next]"
    if h: "ReadOnlyAccess \<le> access_of cfg s \<and> Command s ! 0 = uploadPackBin"
  proof -
    from h assms have "Middleware cfg s =
        preamble cfg s @ invoke_gitPack cfg s uploadPackBin (repoDir_of cfg s) @ [Next]"
      using Middleware_upload [of s cfg] by simp
    then show ?thesis
      by (simp add: invoke_gitPack_def sshFatal_def Let_def bins_distinct split: option.splits)
  qed
  show "Middleware cfg s =
      preamble cfg s @ [CallUploadArchive (repoDir_of cfg s)] @
      (case uploadArchive cfg s (repoDir_of cfg s) of
         None \<Rightarrow> []
       | Some e \<Rightarrow>
           [WritePktline (if errors_Is e ErrInvalidRepo then ErrInvalidRepo
                          else ErrSystemMalfunction), Exit 1]) @ [Next]"
    if h: "ReadOnlyAccess \<le> access_of cfg s \<and> Command s ! 0 = uploadArchiveBin"
  proof -
    from h assms have "Middleware cfg s =
        preamble cfg s @ invoke_gitPack cfg s uploadArchiveBin (repoDir_of cfg s) @ [Next]"
      using Middleware_upload [of s cfg] by simp
    then show ?thesis
      by (simp add: invoke_gitPack_def sshFatal_def Let_def split: option.splits)
  qed
qed

text \<open>
  A denied fetch, a fetch of a missing repository (the pack operation's error wraps
  \<^verbatim>\<open>ErrInvalidRepo\<close>), and an archive that fails otherwise.
\<close>

theorem upload_outcomes_witness:
  "Middleware demo_env (demo_session ''git-upload-pack'' ''private.git'' None) =
     [CallSanitizeRepo ''private.git'', CallAccessLevel ''private'' None,
      CallEnsureWithin ''/data/repos'' ''private.git'', WritePktline ErrNotAuthed, Exit 1, Next] \<and>
   Middleware demo_env (demo_session ''git-upload-pack'' ''nothing'' None) =
     [CallSanitizeRepo ''nothing'', CallAccessLevel ''nothing'' None,
      CallEnsureWithin ''/data/repos'' ''nothing.git'', CallUploadPack ''/data/repos/nothing.git'',
      WritePktline ErrInvalidRepo, Exit 1, Next] \<and>
   Middleware demo_env (demo_session ''git-upload-archive'' ''public'' None) =
     [CallSanitizeRepo ''public'', CallAccessLevel ''public'' None,
      CallEnsureWithin ''/data/repos'' ''public.git'', CallUploadArchive ''/data/repos/public.git'',
      WritePktline ErrSystemMalfunction, Exit 1, Next]"
  using upload_outcomes [where cfg = demo_env
      and s = "demo_session ''git-upload-pack'' ''private.git'' None"]
    upload_outcomes [where cfg = demo_env
      and s = "demo_session ''git-upload-pack'' ''nothing'' None"]
    upload_outcomes [where cfg = demo_env
      and s = "demo_session ''git-upload-archive'' ''public'' None"]
  by (simp add: demo_defs local_defs const_defs)

text \<open>
  C6 as stated (with ReadOnly or more, the matching pack operation is invoked) fails
  where the confinement check fails: the session is ended with that check's error and
  no pack operation is called.
\<close>

theorem upload_escape:
  "Command (demo_session ''git-upload-pack'' ''../../etc'' None) ! 0 = uploadPackBin \<and>
   \<not> access_of demo_env (demo_session ''git-upload-pack'' ''../../etc'' None) < ReadOnlyAccess \<and>
   Middleware demo_env (demo_session ''git-upload-pack'' ''../../etc'' None) =
     [CallSanitizeRepo ''../../etc'', CallAccessLevel ''../../etc'' None,
      CallEnsureWithin ''/data/repos'' ''../../etc.git'',
      WritePktline (ErrOther ''path is outside /data/repos''), Exit 1, Next]"
  by (simp add: mw_defs demo_defs local_defs const_defs)

text \<open>
  C7: the public-key callback returns true exactly when the level the backend resolves
  for the presented key (with the empty repository name) is at least ReadOnly; the
  keyboard-interactive callback returns true exactly when the backend allows keyless
  access and the public-key check with the nil key returns true.
\<close>

theorem auth_callbacks:
  "fst (PublicKeyHandler cfg pk) = (ReadOnlyAccess \<le> Backend_AccessLevel cfg '''' pk) \<and>
   fst (KeyboardInteractiveHandler cfg) =
     (Backend_AllowKeyless cfg \<and> fst (PublicKeyHandler cfg None))"
  by (simp add: PublicKeyHandler_def KeyboardInteractiveHandler_def)

text \<open>
  C8: when the command line has fewer than two tokens, or its first token does not begin
  with \<open>git\<close>, the middleware makes no call at all but the one to the next handler.
\<close>

theorem no_git_noop:
  "length (Command s) < 2 \<or> \<not> prefix ''git'' (Command s ! 0) \<Longrightarrow> Middleware cfg s = [Next]"
  by (auto simp: Middleware_def)

text \<open>A command that is not git's, and a git command with one token.\<close>

theorem no_git_noop_witness:
  "\<not> prefix ''git'' (Command (demo_session ''ls'' ''public.git'' (Some ''bob'')) ! 0) \<and>
   Middleware demo_env (demo_session ''ls'' ''public.git'' (Some ''bob'')) = [Next] \<and>
   length (Command \<lparr>Command = [''git-upload-pack''], PublicKey = None\<rparr>) < 2 \<and>
   Middleware demo_env \<lparr>Command = [''git-upload-pack''], PublicKey = None\<rparr> = [Next]"
  using no_git_noop [where cfg = demo_env and s = "demo_session ''ls'' ''public.git'' (Some ''bob'')"]
    no_git_noop [where cfg = demo_env and s = "\<lparr>Command = [''git-upload-pack''], PublicKey = None\<rparr>"]
  by (simp add: demo_session_def)

text \<open>
  C9: on the receive-pack branch (confinement passed, access at least ReadWrite), when
  the backend's repository lookup returns an error, whatever error it is, the next call
  is \<^verbatim>\<open>CreateRepository\<close> for that name with the flag false; receive-pack is invoked
  after it, when the creation succeeded.
\<close>

theorem create_on_any_lookup_error:
  assumes "2 \<le> length (Command s)" and "Command s ! 0 = receivePackBin"
    and "confinement cfg s = None" and "ReadWriteAccess \<le> access_of cfg s"
    and "Backend_Repository cfg (repo_name cfg s) = Some e"
  shows "Middleware cfg s =
           preamble cfg s @
           [CallRepository (repo_name cfg s), CallCreateRepository (repo_name cfg s) False] @
           (case Backend_CreateRepository cfg (repo_name cfg s) False of
              Some err \<Rightarrow> [LogErrorf err, WritePktline err, Exit 1]
            | None \<Rightarrow> invoke_receivePack cfg s (repoDir_of cfg s)) @ [Next]"
  using assms by (rule Middleware_push_create)

text \<open>
  A backend whose lookup fails for the existing repository \<open>public\<close> with an error
  that is not a not-found.
\<close>

theorem create_on_any_lookup_error_witness:
  "Backend_Repository
     (demo_env\<lparr>Backend_Repository := \<lambda>n. Some (ErrOther ''database is locked'')\<rparr>) ''public'' =
     Some (ErrOther ''database is locked'') \<and>
   Middleware (demo_env\<lparr>Backend_Repository := \<lambda>n. Some (ErrOther ''database is locked'')\<rparr>)
     (demo_session ''git-receive-pack'' ''public.git'' (Some ''alice'')) =
     [CallSanitizeRepo ''public.git'', CallAccessLevel ''public'' (Some ''alice''),
      CallEnsureWithin ''/data/repos'' ''public.git'', CallRepository ''public'',
      CallCreateRepository ''public'' False, CallReceivePack ''/data/repos/public.git'', Next]"
  using create_on_any_lookup_error
    [where cfg = "demo_env\<lparr>Backend_Repository := \<lambda>n. Some (ErrOther ''database is locked'')\<rparr>"
      and s = "demo_session ''git-receive-pack'' ''public.git'' (Some ''alice'')"
      and e = "ErrOther ''database is locked''"]
  by (simp add: demo_defs local_defs const_defs invoke_receivePack_def)

text \<open>
  C10: a command line of at least two tokens whose first token begins with \<open>git\<close>
  and is none of the three pack commands still calls the sanitizer, the AccessLevel
  lookup and the confinement check; when that check fails the session gets the fatal
  error and exit status 1, and when it passes nothing else happens; the next handler
  runs either way.
\<close>

theorem other_git_command:
  assumes "2 \<le> length (Command s)" and "prefix ''git'' (Command s ! 0)"
    and "Command s ! 0 \<noteq> receivePackBin" and "Command s ! 0 \<noteq> uploadPackBin"
    and "Command s ! 0 \<noteq> uploadArchiveBin"
  shows "Middleware cfg s =
           preamble cfg s @
           (case confinement cfg s of Some err \<Rightarrow> [WritePktline err, Exit 1] | None \<Rightarrow> []) @
           [Next]"
proof (cases "confinement cfg s")
  case None
  with assms show ?thesis by (simp add: Middleware_other)
next
  case (Some err)
  with assms show ?thesis by (simp add: Middleware_escape)
qed

text \<open>The command \<open>git-lfs-authenticate\<close>, with a path that passes and one that does not.\<close>

theorem other_git_command_witness:
  "Middleware demo_env (demo_session ''git-lfs-authenticate'' ''public.git'' (Some ''bob'')) =
     [CallSanitizeRepo ''public.git'', CallAccessLevel ''public'' (Some ''bob''),
      CallEnsureWithin ''/data/repos'' ''public.git'', Next] \<and>
   Middleware demo_env (demo_session ''git-lfs-authenticate'' ''../x'' (Some ''bob'')) =
     [CallSanitizeRepo ''../x'', CallAccessLevel ''../x'' (Some ''bob''),
      CallEnsureWithin ''/data/repos'' ''../x.git'',
      WritePktline (ErrOther ''path is outside /data/repos''), Exit 1, Next]"
  using other_git_command [where cfg = demo_env
      and s = "demo_session ''git-lfs-authenticate'' ''public.git'' (Some ''bob'')"]
    other_git_command [where cfg = demo_env
      and s = "demo_session ''git-lfs-authenticate'' ''../x'' (Some ''bob'')"]
  by (simp add: demo_defs local_defs const_defs)

end
